theory Spec2Isabelle
  imports Complex_Main "HOL-Library.Word" "HOL-Library.Sublist"
begin

section \<open>JavaScript strings and values\<close>

text \<open>
  A JavaScript string is a sequence of UTF-16 code units; \<open>indexOf\<close>, \<open>substring\<close>,
  \<open>trim\<close> and the regular expression of \<open>stripDiagramMarkers\<close> (which has no \<open>u\<close> flag)
  all work on code units.  \<open>lit\<close> embeds an ASCII literal of the source.
\<close>

type_synonym jsstring = "16 word list"

definition lit :: "string \<Rightarrow> jsstring" where
  "lit s = map of_char s"

text \<open>
  The values \<open>validateDiagram\<close> receives (\<open>diagram: any\<close>): the trees \<open>JSON.parse\<close> builds,
  and \<open>undefined\<close>.  A number is a double: only its truthiness and \<open>===\<close> are used here, so
  a finite double is taken as the real it denotes (\<open>+0\<close> and \<open>-0\<close> are both \<open>Fin 0\<close>: they are
  equal under \<open>===\<close> and both falsy).  An object is the list of its own properties; the
  first binding of a key is the property's value.
\<close>

datatype jsnumber = NaN | PosInf | NegInf | Fin real

datatype js =
    JUndefined
  | JNull
  | JBool bool
  | JNum jsnumber
  | JStr jsstring
  | JArr "js list"
  | JObj "(jsstring \<times> js) list"

datatype js_error = TypeError | SyntaxError

text \<open>The result of evaluating an expression or running a function body: a value, or a
  thrown exception.\<close>

datatype 'a outcome = Return 'a | Throw js_error

text \<open>
  Property read \<open>v.k\<close>, for the keys the validator reads (\<open>nodes\<close>, \<open>edges\<close>, \<open>id\<close>,
  \<open>label\<close>, \<open>type\<close>, \<open>source\<close>, \<open>target\<close>): none of them is a property of a built-in
  prototype, so on an array, a string, a number or a boolean the read gives \<open>undefined\<close>.
  On \<open>null\<close> and \<open>undefined\<close> it throws a TypeError.
\<close>

fun get_prop :: "js \<Rightarrow> jsstring \<Rightarrow> js outcome" where
  "get_prop JUndefined k = Throw TypeError"
| "get_prop JNull k = Throw TypeError"
| "get_prop (JObj kvs) k = Return (case map_of kvs k of None \<Rightarrow> JUndefined | Some v \<Rightarrow> v)"
| "get_prop (JBool b) k = Return JUndefined"
| "get_prop (JNum n) k = Return JUndefined"
| "get_prop (JStr s) k = Return JUndefined"
| "get_prop (JArr xs) k = Return JUndefined"

text \<open>ToBoolean: the falsy values are \<open>undefined\<close>, \<open>null\<close>, \<open>false\<close>, \<open>0\<close>, \<open>NaN\<close> and
  the empty string.\<close>

fun truthy :: "js \<Rightarrow> bool" where
  "truthy JUndefined = False"
| "truthy JNull = False"
| "truthy (JBool b) = b"
| "truthy (JNum n) = (case n of NaN \<Rightarrow> False | Fin r \<Rightarrow> r \<noteq> 0 | _ \<Rightarrow> True)"
| "truthy (JStr s) = (s \<noteq> [])"
| "truthy (JArr xs) = True"
| "truthy (JObj kvs) = True"

text \<open>\<open>typeof v === 'object'\<close>\<close>

fun typeof_object :: "js \<Rightarrow> bool" where
  "typeof_object JNull = True"
| "typeof_object (JArr xs) = True"
| "typeof_object (JObj kvs) = True"
| "typeof_object v = False"

fun isArray :: "js \<Rightarrow> bool" where
  "isArray (JArr xs) = True"
| "isArray v = False"

text \<open>The elements a \<open>for ... of\<close> loop or \<open>some\<close> visits.\<close>

fun elements :: "js \<Rightarrow> js list" where
  "elements (JArr xs) = xs"
| "elements v = []"

text \<open>
  Strict equality \<open>a === b\<close>.  Two objects (or arrays) are equal only when they are the
  same reference; the two operands the validator compares sit at different places of the
  parsed tree, so they are never the same reference.
\<close>

fun strict_eq :: "js \<Rightarrow> js \<Rightarrow> bool" where
  "strict_eq JUndefined JUndefined = True"
| "strict_eq JNull JNull = True"
| "strict_eq (JBool a) (JBool b) = (a = b)"
| "strict_eq (JNum a) (JNum b) = (a \<noteq> NaN \<and> a = b)"
| "strict_eq (JStr a) (JStr b) = (a = b)"
| "strict_eq a b = False"

text \<open>\<open>xs.includes(v)\<close> for an array \<open>xs\<close> of strings (SameValueZero).\<close>

fun array_includes :: "jsstring list \<Rightarrow> js \<Rightarrow> bool" where
  "array_includes xs (JStr s) = (s \<in> set xs)"
| "array_includes xs v = False"

section \<open>The validator (diagram-parser: validateDiagram)\<close>

text \<open>\<open>!v.k\<close>\<close>

definition not_prop :: "js \<Rightarrow> jsstring \<Rightarrow> bool outcome" where
  "not_prop v k = (case get_prop v k of Throw e \<Rightarrow> Throw e | Return x \<Rightarrow> Return (\<not> truthy x))"

text \<open>\<open>a || b\<close> on booleans: \<open>b\<close> is evaluated only when \<open>a\<close> is false.\<close>

definition or_else :: "bool outcome \<Rightarrow> bool outcome \<Rightarrow> bool outcome" where
  "or_else a b = (case a of Throw e \<Rightarrow> Throw e | Return True \<Rightarrow> Return True | Return False \<Rightarrow> b)"

text \<open>\<open>for (const x of xs) { ... return false ... }\<close>: the body \<open>f x\<close> gives \<open>Return False\<close>
  when it executes \<open>return false\<close> and \<open>Return True\<close> when it falls through.\<close>

fun for_of :: "('a \<Rightarrow> bool outcome) \<Rightarrow> 'a list \<Rightarrow> bool outcome" where
  "for_of f [] = Return True"
| "for_of f (x # xs) =
     (case f x of
        Throw e \<Rightarrow> Throw e
      | Return False \<Rightarrow> Return False
      | Return True \<Rightarrow> for_of f xs)"

text \<open>\<open>xs.some(p)\<close>\<close>

fun array_some :: "('a \<Rightarrow> bool outcome) \<Rightarrow> 'a list \<Rightarrow> bool outcome" where
  "array_some p [] = Return False"
| "array_some p (x # xs) =
     (case p x of
        Throw e \<Rightarrow> Throw e
      | Return True \<Rightarrow> Return True
      | Return False \<Rightarrow> array_some p xs)"

definition validTypes :: "jsstring list" where
  "validTypes = [lit ''start'', lit ''process'', lit ''decision'', lit ''end'', lit ''data'',
     lit ''default'']"

text \<open>The body of the loop over \<open>diagram.nodes\<close>.\<close>

definition check_node :: "js \<Rightarrow> bool outcome" where
  "check_node node =
     (case or_else (not_prop node (lit ''id''))
             (or_else (not_prop node (lit ''label'')) (not_prop node (lit ''type''))) of
        Throw e \<Rightarrow> Throw e
      | Return True \<Rightarrow> Return False
      | Return False \<Rightarrow>
          (case get_prop node (lit ''type'') of
             Throw e \<Rightarrow> Throw e
           | Return t \<Rightarrow> if \<not> array_includes validTypes t then Return False else Return True))"

text \<open>The callback \<open>(n) => n.id === edge.k\<close>, for \<open>k\<close> one of \<open>source\<close>, \<open>target\<close>.\<close>

definition id_is :: "js \<Rightarrow> jsstring \<Rightarrow> js \<Rightarrow> bool outcome" where
  "id_is edge k n =
     (case get_prop n (lit ''id'') of
        Throw e \<Rightarrow> Throw e
      | Return a \<Rightarrow>
          (case get_prop edge k of
             Throw e \<Rightarrow> Throw e
           | Return b \<Rightarrow> Return (strict_eq a b)))"

text \<open>The body of the loop over \<open>diagram.edges\<close>; \<open>nodes\<close> are the elements of
  \<open>diagram.nodes\<close>.\<close>

definition check_edge :: "js list \<Rightarrow> js \<Rightarrow> bool outcome" where
  "check_edge nodes edge =
     (case or_else (not_prop edge (lit ''id''))
             (or_else (not_prop edge (lit ''source'')) (not_prop edge (lit ''target''))) of
        Throw e \<Rightarrow> Throw e
      | Return True \<Rightarrow> Return False
      | Return False \<Rightarrow>
          (case array_some (id_is edge (lit ''source'')) nodes of
             Throw e \<Rightarrow> Throw e
           | Return sourceExists \<Rightarrow>
               (case array_some (id_is edge (lit ''target'')) nodes of
                  Throw e \<Rightarrow> Throw e
                | Return targetExists \<Rightarrow>
                    if \<not> sourceExists \<or> \<not> targetExists then Return False else Return True)))"

definition validateDiagram :: "js \<Rightarrow> bool outcome" where
  "validateDiagram diagram =
     (if \<not> truthy diagram \<or> \<not> typeof_object diagram then Return False
      else
        (case get_prop diagram (lit ''nodes'') of
           Throw e \<Rightarrow> Throw e
         | Return ns \<Rightarrow>
             if \<not> isArray ns then Return False
             else
               (case get_prop diagram (lit ''edges'') of
                  Throw e \<Rightarrow> Throw e
                | Return es \<Rightarrow>
                    if \<not> isArray es then Return False
                    else
                      (case for_of check_node (elements ns) of
                         Throw e \<Rightarrow> Throw e
                       | Return False \<Rightarrow> Return False
                       | Return True \<Rightarrow> for_of (check_edge (elements ns)) (elements es)))))"

section \<open>String operations\<close>

text \<open>\<open>s.indexOf(pat)\<close>: the position of the first occurrence, \<open>None\<close> for \<open>-1\<close>.\<close>

fun indexOf :: "jsstring \<Rightarrow> jsstring \<Rightarrow> nat option" where
  "indexOf [] pat = (if pat = [] then Some 0 else None)"
| "indexOf (c # cs) pat =
     (if prefix pat (c # cs) then Some 0 else map_option Suc (indexOf cs pat))"


text \<open>The code units \<open>trim\<close> removes: ECMAScript's WhiteSpace and LineTerminator.\<close>

definition is_space :: "16 word \<Rightarrow> bool" where
  "is_space c \<longleftrightarrow>
     c = 0x9 \<or> c = 0xA \<or> c = 0xB \<or> c = 0xC \<or> c = 0xD \<or> c = 0x20 \<or> c = 0xA0 \<or>
     c = 0x1680 \<or> (0x2000 \<le> c \<and> c \<le> 0x200A) \<or> c = 0x2028 \<or> c = 0x2029 \<or>
     c = 0x202F \<or> c = 0x205F \<or> c = 0x3000 \<or> c = 0xFEFF"

definition trim :: "jsstring \<Rightarrow> jsstring" where
  "trim s = rev (dropWhile is_space (rev (dropWhile is_space s)))"

section \<open>The extractor (diagram-parser: extractDiagramFromResponse, stripDiagramMarkers)\<close>

definition startMarker :: jsstring where
  "startMarker = lit ''[DIAGRAM_START]''"

definition endMarker :: jsstring where
  "endMarker = lit ''[DIAGRAM_END]''"




definition placeholder :: jsstring where
  "placeholder = lit ''[Diagram generated]''"

text \<open>
  \<open>s.replace(/\[DIAGRAM_START\][\s\S]*?\[DIAGRAM_END\]/g, '[Diagram generated]')\<close>.
  A match starts at the first start marker that has an end marker after it, and the lazy
  \<open>[\s\S]*?\<close> (any code units) stops at the first such end marker; if the first start
  marker has no end marker after it, no later one has.  The search goes on after the
  match, in the original text.
\<close>

function replace_blocks :: "jsstring \<Rightarrow> jsstring" where
  "replace_blocks s =
     (case indexOf s startMarker of
        None \<Rightarrow> s
      | Some i \<Rightarrow>
          (case indexOf (drop (i + length startMarker) s) endMarker of
             None \<Rightarrow> s
           | Some j \<Rightarrow>
               take i s @ placeholder @
               replace_blocks (drop (i + length startMarker + j + length endMarker) s)))"
  by pat_completeness auto
termination
proof (relation "measure length")
  show "wf (measure length)" by simp
next
  fix s :: jsstring and i j :: nat
  assume "indexOf s startMarker = Some i"
  then have "s \<noteq> []"
    by (auto simp: startMarker_def lit_def)
  then show "(drop (i + length startMarker + j + length endMarker) s, s) \<in> measure length"
    by (simp add: startMarker_def lit_def)
qed

declare replace_blocks.simps [simp del]

definition stripDiagramMarkers :: "jsstring \<Rightarrow> jsstring" where
  "stripDiagramMarkers response = trim (replace_blocks response)"

section \<open>The typed graph (types/graph)\<close>

text \<open>
  \<open>GraphNode\<close>, \<open>GraphEdge\<close>, \<open>PositionedNode\<close> (which extends \<open>GraphNode\<close>), and the two
  graph structures \<open>GraphModel\<close> and \<open>LayoutResult\<close>, which differ in the type of their
  nodes only.  The fields \<open>id\<close>, \<open>label\<close> and \<open>type\<close> carry the name of their interface.
  A number of the layout is taken as the real it denotes.
\<close>

record GraphNode =
  node_id :: jsstring
  node_label :: jsstring
  node_type :: jsstring
  metadata :: "js option"

record GraphEdge =
  edge_id :: jsstring
  source :: jsstring
  target :: jsstring
  edge_label :: "jsstring option"

record PositionedNode = GraphNode +
  x :: real
  y :: real
  width :: real
  height :: real

record 'n Graph =
  nodes :: "'n list"
  edges :: "GraphEdge list"

type_synonym GraphModel = "GraphNode Graph"

type_synonym LayoutResult = "PositionedNode Graph"

section \<open>The layout engine (layout-engine: getAutoLayout)\<close>

datatype RankDir = TB | BT | LR | RL

record LayoutOptions =
  rankdir :: "RankDir option"
  nodesep :: "real option"
  ranksep :: "real option"
  nodeWidth :: "real option"
  nodeHeight :: "real option"

definition NODE_WIDTH :: real where
  "NODE_WIDTH = 180"

definition NODE_HEIGHT :: real where
  "NODE_HEIGHT = 80"

text \<open>A destructuring default \<open>{ k = d } = options\<close>.\<close>

definition or_default :: "'a option \<Rightarrow> 'a \<Rightarrow> 'a" where
  "or_default v d = (case v of None \<Rightarrow> d | Some a \<Rightarrow> a)"

text \<open>
  Dagre is a library the repository depends on.  What it is given is the sequence of
  calls that build the graph: \<open>setGraph\<close>, \<open>setDefaultEdgeLabel\<close>, one \<open>setNode\<close> for each
  node with its label object \<open>{label, width, height}\<close>, one \<open>setEdge\<close> for each edge.
\<close>

datatype DagreCall =
    setGraph RankDir real real
  | setDefaultEdgeLabel
  | setNode jsstring jsstring real real
  | setEdge jsstring jsstring

definition build_graph :: "GraphModel \<Rightarrow> LayoutOptions \<Rightarrow> DagreCall list" where
  "build_graph graphModel options =
     [setGraph (or_default (rankdir options) TB) (or_default (nodesep options) 50)
        (or_default (ranksep options) 100),
      setDefaultEdgeLabel] @
     map (\<lambda>node. setNode (node_id node) (node_label node)
            (or_default (nodeWidth options) NODE_WIDTH)
            (or_default (nodeHeight options) NODE_HEIGHT)) (nodes graphModel) @
     map (\<lambda>edge. setEdge (source edge) (target edge)) (edges graphModel)"

text \<open>
  \<open>dagre.layout(graph)\<close> is the parameter \<open>dagre_layout\<close>: from the state \<open>w\<close> of the
  library at the time of the call (whatever it keeps between calls) and the graph, it
  throws or it writes a centre into every node's label; the result maps a node id to the
  \<open>x\<close> and \<open>y\<close> that \<open>graph.node(id)\<close> holds afterwards.
\<close>

type_synonym 'w dagre = "'w \<Rightarrow> DagreCall list \<Rightarrow> (jsstring \<Rightarrow> real \<times> real) outcome"

definition getAutoLayout ::
    "'w dagre \<Rightarrow> 'w \<Rightarrow> GraphModel \<Rightarrow> LayoutOptions \<Rightarrow> LayoutResult outcome" where
  "getAutoLayout dagre_layout w graphModel options =
     (let nodeWidth = or_default (nodeWidth options) NODE_WIDTH;
          nodeHeight = or_default (nodeHeight options) NODE_HEIGHT
      in case dagre_layout w (build_graph graphModel options) of
           Throw e \<Rightarrow> Throw e
         | Return nodeWithPosition \<Rightarrow>
             Return \<lparr>nodes =
                 map (\<lambda>node.
                        \<lparr>node_id = node_id node, node_label = node_label node,
                         node_type = node_type node, metadata = metadata node,
                         x = fst (nodeWithPosition (node_id node)) - nodeWidth / 2,
                         y = snd (nodeWithPosition (node_id node)) - nodeHeight / 2,
                         width = nodeWidth, height = nodeHeight\<rparr>)
                   (nodes graphModel),
               edges = edges graphModel\<rparr>)"

section \<open>The shape synthesizer (tldraw-helpers: generateTldrawShapes)\<close>

text \<open>The values of \<open>TLGeoShape['props']['geo']\<close> that \<open>getGeoTypeForNode\<close> returns.\<close>

datatype GeoType = rectangle | diamond | ellipse | trapezoid

definition getGeoTypeForNode :: "jsstring \<Rightarrow> GeoType" where
  "getGeoTypeForNode nodeType =
     (if nodeType = lit ''decision'' then diamond
      else if nodeType = lit ''start'' \<or> nodeType = lit ''end'' then ellipse
      else if nodeType = lit ''data'' then trapezoid
      else rectangle)"

text \<open>
  The objects handed to \<open>editor.createShape\<close>.  A shape id is what \<open>createShapeId()\<close>
  returns: a fresh, non-empty (so truthy) string; the model numbers them.
\<close>

type_synonym ShapeId = nat

datatype Color = green | red | blue

datatype Fill = solid

datatype ShapeProps =
    GeoProps real real GeoType jsstring Fill Color
  | ArrowProps "real \<times> real" "real \<times> real" jsstring

datatype ShapeType = geo | arrow

record Shape =
  shape_id :: ShapeId
  shape_type :: ShapeType
  shape_x :: real
  shape_y :: real
  props :: ShapeProps

text \<open>The editor: the shapes created so far, in order, and the count of ids handed out.\<close>

record Editor =
  shapes :: "Shape list"
  next_id :: nat

definition createShapeId :: "Editor \<Rightarrow> ShapeId \<times> Editor" where
  "createShapeId editor = (next_id editor, editor\<lparr>next_id := Suc (next_id editor)\<rparr>)"

definition createShape :: "Shape \<Rightarrow> Editor \<Rightarrow> Editor" where
  "createShape shape editor = editor\<lparr>shapes := shapes editor @ [shape]\<rparr>"

text \<open>The object literal of the first \<open>editor.createShape\<close> call: the shape of a node.\<close>

definition geo_shape :: "ShapeId \<Rightarrow> PositionedNode \<Rightarrow> Shape" where
  "geo_shape shapeId node =
     (let geoType = getGeoTypeForNode (node_type node)
      in \<lparr>shape_id = shapeId, shape_type = geo, shape_x = x node, shape_y = y node,
          props = GeoProps (width node) (height node) geoType (node_label node) solid
            (if node_type node = lit ''start'' then green
             else if node_type node = lit ''end'' then red else blue)\<rparr>)"

text \<open>The callback of \<open>layout.nodes.forEach\<close>; the state is \<open>nodeShapeMap\<close> and the
  editor.\<close>

definition node_step ::
    "PositionedNode \<Rightarrow> (jsstring \<rightharpoonup> ShapeId) \<times> Editor \<Rightarrow> (jsstring \<rightharpoonup> ShapeId) \<times> Editor" where
  "node_step node st =
     (let (nodeShapeMap, editor) = st;
          (shapeId, editor) = createShapeId editor;
          nodeShapeMap = nodeShapeMap(node_id node \<mapsto> shapeId)
      in (nodeShapeMap, createShape (geo_shape shapeId node) editor))"

text \<open>The object literal of the second \<open>editor.createShape\<close> call: the arrow of an edge,
  from the bottom centre of the source node to the top centre of the target node.
  \<open>edge.label || ''\<close> is the label, or the empty string when there is none.\<close>

definition arrow_shape :: "ShapeId \<Rightarrow> PositionedNode \<Rightarrow> PositionedNode \<Rightarrow> GraphEdge \<Rightarrow> Shape" where
  "arrow_shape arrowId sourceNode targetNode edge =
     (let startX = x sourceNode + width sourceNode / 2;
          startY = y sourceNode + height sourceNode;
          endX = x targetNode + width targetNode / 2;
          endY = y targetNode
      in \<lparr>shape_id = arrowId, shape_type = arrow, shape_x = 0, shape_y = 0,
          props = ArrowProps (startX, startY) (endX, endY) (or_default (edge_label edge) [])\<rparr>)"

text \<open>The callback of \<open>layout.edges.forEach\<close>.\<close>

definition edge_step ::
    "LayoutResult \<Rightarrow> (jsstring \<rightharpoonup> ShapeId) \<Rightarrow> GraphEdge \<Rightarrow> Editor \<Rightarrow> Editor" where
  "edge_step layout nodeShapeMap edge editor =
     (case (nodeShapeMap (source edge), nodeShapeMap (target edge)) of
        (Some sourceShapeId, Some targetShapeId) \<Rightarrow>
          (case (find (\<lambda>n. node_id n = source edge) (nodes layout),
                 find (\<lambda>n. node_id n = target edge) (nodes layout)) of
             (Some sourceNode, Some targetNode) \<Rightarrow>
               (let (arrowId, editor) = createShapeId editor
                in createShape (arrow_shape arrowId sourceNode targetNode edge) editor)
           | _ \<Rightarrow> editor)
      | _ \<Rightarrow> editor)"

definition generateTldrawShapes :: "LayoutResult \<Rightarrow> Editor \<Rightarrow> Editor" where
  "generateTldrawShapes layout editor =
     (let (nodeShapeMap, editor) = fold node_step (nodes layout) (Map.empty, editor)
      in fold (edge_step layout nodeShapeMap) (edges layout) editor)"

section \<open>What the validator is to decide\<close>

text \<open>The value of the property \<open>k\<close> of \<open>v\<close>; \<open>undefined\<close> when \<open>v\<close> has none.\<close>

definition field :: "js \<Rightarrow> jsstring \<Rightarrow> js" where
  "field v k = (case get_prop v k of Return a \<Rightarrow> a | Throw e \<Rightarrow> JUndefined)"

text \<open>\<open>v\<close> is a JSON object that has a property \<open>k\<close> of its own.\<close>

definition has_prop :: "js \<Rightarrow> jsstring \<Rightarrow> bool" where
  "has_prop v k = (case v of JObj kvs \<Rightarrow> map_of kvs k \<noteq> None | _ \<Rightarrow> False)"

fun is_object :: "js \<Rightarrow> bool" where
  "is_object (JObj kvs) = True"
| "is_object (JArr vs) = True"
| "is_object v = False"

fun nullish :: "js \<Rightarrow> bool" where
  "nullish JUndefined = True"
| "nullish JNull = True"
| "nullish v = False"

definition nodes_of :: "js \<Rightarrow> js list" where
  "nodes_of d = elements (field d (lit ''nodes''))"

definition edges_of :: "js \<Rightarrow> js list" where
  "edges_of d = elements (field d (lit ''edges''))"

text \<open>The field \<open>k\<close> of the edge \<open>e\<close> is the id of one of the nodes \<open>ns\<close>.\<close>

definition refers :: "js list \<Rightarrow> js \<Rightarrow> jsstring \<Rightarrow> bool" where
  "refers ns e k \<longleftrightarrow> list_ex (\<lambda>n. strict_eq (field n (lit ''id'')) (field e k)) ns"

text \<open>
  The conditions of rejection as the specification lists them: the value is not an object,
  \<open>nodes\<close> or \<open>edges\<close> is not an array, a node lacks \<open>id\<close>, \<open>label\<close> or \<open>type\<close> or has a
  \<open>type\<close> outside the enumeration, an edge lacks \<open>id\<close>, \<open>source\<close> or \<open>target\<close> or refers
  to an id that no node has.
\<close>

definition claimed_rejection :: "js \<Rightarrow> bool" where
  "claimed_rejection d \<longleftrightarrow>
     \<not> is_object d \<or> \<not> isArray (field d (lit ''nodes'')) \<or> \<not> isArray (field d (lit ''edges'')) \<or>
     list_ex (\<lambda>n. \<not> has_prop n (lit ''id'') \<or> \<not> has_prop n (lit ''label'') \<or>
                \<not> has_prop n (lit ''type'') \<or>
                \<not> array_includes validTypes (field n (lit ''type''))) (nodes_of d) \<or>
     list_ex (\<lambda>e. \<not> has_prop e (lit ''id'') \<or> \<not> has_prop e (lit ''source'') \<or>
                \<not> has_prop e (lit ''target'') \<or>
                \<not> refers (nodes_of d) e (lit ''source'') \<or>
                \<not> refers (nodes_of d) e (lit ''target'')) (edges_of d)"

text \<open>
  The same conditions with truthiness in the place of presence: a node passes when its
  \<open>id\<close>, \<open>label\<close> and \<open>type\<close> are truthy and its \<open>type\<close> is in the enumeration; an edge
  passes when its \<open>id\<close>, \<open>source\<close> and \<open>target\<close> are truthy and both ends are ids of
  nodes.
\<close>

definition node_passes :: "js \<Rightarrow> bool" where
  "node_passes n \<longleftrightarrow>
     truthy (field n (lit ''id'')) \<and> truthy (field n (lit ''label'')) \<and>
     truthy (field n (lit ''type'')) \<and> array_includes validTypes (field n (lit ''type''))"

definition edge_passes :: "js list \<Rightarrow> js \<Rightarrow> bool" where
  "edge_passes ns e \<longleftrightarrow>
     truthy (field e (lit ''id'')) \<and> truthy (field e (lit ''source'')) \<and>
     truthy (field e (lit ''target'')) \<and>
     refers ns e (lit ''source'') \<and> refers ns e (lit ''target'')"

definition accepts :: "js \<Rightarrow> bool" where
  "accepts d \<longleftrightarrow>
     is_object d \<and> isArray (field d (lit ''nodes'')) \<and> isArray (field d (lit ''edges'')) \<and>
     list_all node_passes (nodes_of d) \<and> list_all (edge_passes (nodes_of d)) (edges_of d)"

text \<open>No element of \<open>nodes\<close> or of \<open>edges\<close> is \<open>null\<close> or \<open>undefined\<close>.\<close>

definition no_null_entries :: "js \<Rightarrow> bool" where
  "no_null_entries d \<longleftrightarrow>
     list_all (\<lambda>n. \<not> nullish n) (nodes_of d) \<and> list_all (\<lambda>e. \<not> nullish e) (edges_of d)"




text \<open>The JSON values \<open>{"id": i, "label": l, "type": t}\<close>,
  \<open>{"id": i, "source": s, "target": t}\<close> and \<open>{"nodes": ns, "edges": es}\<close>.\<close>

definition json_node :: "string \<Rightarrow> string \<Rightarrow> string \<Rightarrow> js" where
  "json_node i l t =
     JObj [(lit ''id'', JStr (lit i)), (lit ''label'', JStr (lit l)), (lit ''type'', JStr (lit t))]"

definition json_edge :: "string \<Rightarrow> string \<Rightarrow> string \<Rightarrow> js" where
  "json_edge i s t =
     JObj [(lit ''id'', JStr (lit i)), (lit ''source'', JStr (lit s)),
           (lit ''target'', JStr (lit t))]"

definition json_diagram :: "js list \<Rightarrow> js list \<Rightarrow> js" where
  "json_diagram ns es = JObj [(lit ''nodes'', JArr ns), (lit ''edges'', JArr es)]"

section \<open>What the synthesizer is to produce\<close>

text \<open>The source and the target of the edge are ids of positioned nodes: both resolve
  through \<open>nodeShapeMap\<close>, whose keys are the ids of the nodes.\<close>

definition resolves :: "LayoutResult \<Rightarrow> GraphEdge \<Rightarrow> bool" where
  "resolves layout edge \<longleftrightarrow>
     source edge \<in> set (map node_id (nodes layout)) \<and>
     target edge \<in> set (map node_id (nodes layout))"

text \<open>The first positioned node with the id \<open>k\<close>.\<close>

definition node_named :: "LayoutResult \<Rightarrow> jsstring \<Rightarrow> PositionedNode" where
  "node_named layout k = the (find (\<lambda>n. node_id n = k) (nodes layout))"

text \<open>The arrow of an edge that resolves.\<close>

definition connector :: "LayoutResult \<Rightarrow> ShapeId \<Rightarrow> GraphEdge \<Rightarrow> Shape" where
  "connector layout i edge =
     arrow_shape i (node_named layout (source edge)) (node_named layout (target edge)) edge"

text \<open>
  The anchors as the specification words them: the midpoint of the downstream face of a
  box, and the midpoint of its upstream face, along the primary axis of the direction
  (bottom and top for top-to-bottom, top and bottom for bottom-to-top, right and left
  for left-to-right, left and right for right-to-left).
\<close>

fun downstream_mid :: "RankDir \<Rightarrow> PositionedNode \<Rightarrow> real \<times> real" where
  "downstream_mid TB n = (x n + width n / 2, y n + height n)"
| "downstream_mid BT n = (x n + width n / 2, y n)"
| "downstream_mid LR n = (x n + width n, y n + height n / 2)"
| "downstream_mid RL n = (x n, y n + height n / 2)"

fun upstream_mid :: "RankDir \<Rightarrow> PositionedNode \<Rightarrow> real \<times> real" where
  "upstream_mid TB n = (x n + width n / 2, y n)"
| "upstream_mid BT n = (x n + width n / 2, y n + height n)"
| "upstream_mid LR n = (x n, y n + height n / 2)"
| "upstream_mid RL n = (x n + width n, y n + height n / 2)"

text \<open>Concrete nodes and edges: a positioned node of the default size 180 by 80, an edge
  without label, the editor before any shape is created, and the options \<open>{}\<close>.\<close>

definition box :: "string \<Rightarrow> string \<Rightarrow> string \<Rightarrow> real \<Rightarrow> real \<Rightarrow> PositionedNode" where
  "box i l t a b =
     \<lparr>node_id = lit i, node_label = lit l, node_type = lit t, metadata = None,
      x = a, y = b, width = 180, height = 80\<rparr>"

definition link :: "string \<Rightarrow> string \<Rightarrow> string \<Rightarrow> GraphEdge" where
  "link i s t = \<lparr>edge_id = lit i, source = lit s, target = lit t, edge_label = None\<rparr>"

definition blank :: Editor where
  "blank = \<lparr>shapes = [], next_id = 0\<rparr>"






section \<open>Properties of the validator\<close>

lemma get_prop_field: "\<not> nullish v \<Longrightarrow> get_prop v k = Return (field v k)"
  by (cases v) (simp_all add: field_def)

lemma field_nullish: "nullish v \<Longrightarrow> field v k = JUndefined"
  by (cases v) (simp_all add: field_def)

lemma check_node_eq: "\<not> nullish n \<Longrightarrow> check_node n = Return (node_passes n)"
  by (simp add: check_node_def or_else_def not_prop_def get_prop_field node_passes_def
      split: bool.splits)

lemma check_node_null: "nullish n \<Longrightarrow> check_node n = Throw TypeError"
  by (cases n) (simp_all add: check_node_def or_else_def not_prop_def)

lemma node_passes_not_nullish: "node_passes n \<Longrightarrow> \<not> nullish n"
  by (auto simp: node_passes_def field_nullish)

lemma check_node_True: "check_node n = Return True \<longleftrightarrow> node_passes n"
  by (cases "nullish n") (auto simp: check_node_eq check_node_null node_passes_not_nullish)

lemma for_of_eq:
  "list_all (\<lambda>a. f a = Return (p a)) vs \<Longrightarrow> for_of f vs = Return (list_all p vs)"
  by (induction vs) (auto split: bool.splits)

lemma for_of_True: "for_of f vs = Return True \<longleftrightarrow> list_all (\<lambda>a. f a = Return True) vs"
  by (induction vs) (auto split: outcome.splits bool.splits)

lemma array_some_eq:
  "list_all (\<lambda>a. f a = Return (p a)) vs \<Longrightarrow> array_some f vs = Return (list_ex p vs)"
  by (induction vs) (auto split: bool.splits)

lemma id_is_eq:
  "\<not> nullish e \<Longrightarrow> \<not> nullish n \<Longrightarrow>
   id_is e k n = Return (strict_eq (field n (lit ''id'')) (field e k))"
  by (simp add: id_is_def get_prop_field)

lemma some_id_is:
  assumes "\<not> nullish e" "list_all (\<lambda>n. \<not> nullish n) ns"
  shows "array_some (id_is e k) ns = Return (refers ns e k)"
  unfolding refers_def
  by (rule array_some_eq) (use assms in \<open>simp add: list_all_iff id_is_eq\<close>)

lemma check_edge_eq:
  "\<not> nullish e \<Longrightarrow> list_all (\<lambda>n. \<not> nullish n) ns \<Longrightarrow>
   check_edge ns e = Return (edge_passes ns e)"
  by (simp add: check_edge_def or_else_def not_prop_def get_prop_field edge_passes_def some_id_is
      split: bool.splits)

lemma check_edge_null: "nullish e \<Longrightarrow> check_edge ns e = Throw TypeError"
  by (cases e) (simp_all add: check_edge_def or_else_def not_prop_def)

lemma check_edge_True:
  "list_all (\<lambda>n. \<not> nullish n) ns \<Longrightarrow> check_edge ns e = Return True \<longleftrightarrow> edge_passes ns e"
  by (cases "nullish e") (auto simp: check_edge_eq check_edge_null edge_passes_def field_nullish)

lemma validate_early:
  "\<not> is_object d \<or> \<not> isArray (field d (lit ''nodes'')) \<or> \<not> isArray (field d (lit ''edges''))
   \<Longrightarrow> validateDiagram d = Return False"
  by (cases d) (auto simp: validateDiagram_def field_def)

lemma validate_loops:
  assumes "is_object d" "isArray (field d (lit ''nodes''))" "isArray (field d (lit ''edges''))"
  shows "for_of check_node (nodes_of d) = Return True \<Longrightarrow>
           validateDiagram d = for_of (check_edge (nodes_of d)) (edges_of d)"
    and "for_of check_node (nodes_of d) \<noteq> Return True \<Longrightarrow>
           validateDiagram d = for_of check_node (nodes_of d)"
  using assms
  by (cases d; simp add: validateDiagram_def field_def nodes_of_def edges_of_def
        split: outcome.splits bool.splits)+

lemma validate_True: "validateDiagram d = Return True \<longleftrightarrow> accepts d"
proof (cases "is_object d \<and> isArray (field d (lit ''nodes'')) \<and> isArray (field d (lit ''edges''))")
  case False
  then show ?thesis
    using validate_early [of d] by (auto simp: accepts_def)
next
  case shape: True
  show ?thesis
  proof (cases "for_of check_node (nodes_of d) = Return True")
    case True
    then have np: "list_all node_passes (nodes_of d)"
      by (simp add: for_of_True check_node_True)
    then have nn: "list_all (\<lambda>n. \<not> nullish n) (nodes_of d)"
      by (simp add: list_all_iff node_passes_not_nullish)
    have "validateDiagram d = for_of (check_edge (nodes_of d)) (edges_of d)"
      using shape True by (simp add: validate_loops)
    then show ?thesis
      using shape np by (simp add: accepts_def for_of_True check_edge_True [OF nn])
  next
    case False
    then have "\<not> list_all node_passes (nodes_of d)"
      by (simp add: for_of_True check_node_True)
    moreover have "validateDiagram d = for_of check_node (nodes_of d)"
      using shape False by (simp add: validate_loops)
    ultimately show ?thesis
      using False by (simp add: accepts_def)
  qed
qed

lemma validate_total:
  assumes "no_null_entries d"
  shows "validateDiagram d = Return (accepts d)"
proof (cases "is_object d \<and> isArray (field d (lit ''nodes'')) \<and> isArray (field d (lit ''edges''))")
  case False
  then show ?thesis
    using validate_early [of d] by (auto simp: accepts_def)
next
  case shape: True
  from assms have nn: "list_all (\<lambda>n. \<not> nullish n) (nodes_of d)"
    and ne: "list_all (\<lambda>e. \<not> nullish e) (edges_of d)"
    by (simp_all add: no_null_entries_def)
  have n: "for_of check_node (nodes_of d) = Return (list_all node_passes (nodes_of d))"
    by (rule for_of_eq) (use nn in \<open>simp add: list_all_iff check_node_eq\<close>)
  have e: "for_of (check_edge (nodes_of d)) (edges_of d)
      = Return (list_all (edge_passes (nodes_of d)) (edges_of d))"
    by (rule for_of_eq) (use nn ne in \<open>simp add: list_all_iff check_edge_eq\<close>)
  show ?thesis
  proof (cases "list_all node_passes (nodes_of d)")
    case True
    then show ?thesis
      using shape validate_loops(1) [of d] by (simp add: n e accepts_def)
  next
    case False
    then show ?thesis
      using shape validate_loops(2) [of d] by (simp add: n accepts_def)
  qed
qed













lemmas example_defs =
  json_node_def json_edge_def json_diagram_def lit_def field_def nodes_of_def edges_of_def
  validTypes_def refers_def

text \<open>An entry \<open>null\<close> in \<open>nodes\<close> makes the validator throw: \<open>node.id\<close> is read before
  anything is known about \<open>node\<close>.\<close>

lemma validateDiagram_null_node: "validateDiagram (json_diagram [JNull] []) = Throw TypeError"
  by (simp add: validateDiagram_def check_node_def or_else_def not_prop_def example_defs)

text \<open>
  C1, as the specification states it, fails: the node \<open>{"id": "1", "label": "", "type":
  "start"}\<close> lacks none of its fields and its type is in the enumeration, there is no
  edge, and the validator rejects the model.
\<close>

theorem validateDiagram_empty_label_counterexample:
  "validateDiagram (json_diagram [json_node ''1'' '''' ''start''] []) = Return False \<and>
   \<not> claimed_rejection (json_diagram [json_node ''1'' '''' ''start''] [])"
  by (simp add: validateDiagram_def check_node_def or_else_def not_prop_def claimed_rejection_def
      has_prop_def example_defs)

text \<open>
  C1, amended.  The validator returns acceptance exactly when the value is an object whose
  \<open>nodes\<close> and \<open>edges\<close> are arrays, every node has a truthy \<open>id\<close>, \<open>label\<close> and \<open>type\<close>
  (present and not the empty string or another falsy value) with the \<open>type\<close> in the
  enumeration, and every edge has a truthy \<open>id\<close>, \<open>source\<close> and \<open>target\<close>, both of them
  the id of a node of the same model.  For every other value none of whose node and edge
  entries is \<open>null\<close> or \<open>undefined\<close>, it returns the rejection, without throwing.
\<close>

theorem validateDiagram_accepts_iff:
  "(validateDiagram d = Return True \<longleftrightarrow> accepts d) \<and>
   (no_null_entries d \<longrightarrow> validateDiagram d = Return (accepts d))"
  by (simp add: validate_True validate_total)

theorem validateDiagram_accepts_iff_witness:
  "no_null_entries
     (json_diagram [json_node ''1'' ''Start'' ''start'', json_node ''2'' ''End'' ''end'']
        [json_edge ''e1'' ''1'' ''2'']) \<and>
   validateDiagram
     (json_diagram [json_node ''1'' ''Start'' ''start'', json_node ''2'' ''End'' ''end'']
        [json_edge ''e1'' ''1'' ''2'']) = Return True \<and>
   no_null_entries (json_diagram [json_node ''1'' ''A'' ''start''] [json_edge ''e1'' ''1'' ''3'']) \<and>
   validateDiagram (json_diagram [json_node ''1'' ''A'' ''start''] [json_edge ''e1'' ''1'' ''3''])
     = Return False"
  using
    validateDiagram_accepts_iff [of "json_diagram
      [json_node ''1'' ''Start'' ''start'', json_node ''2'' ''End'' ''end'']
      [json_edge ''e1'' ''1'' ''2'']"]
    validateDiagram_accepts_iff [of
      "json_diagram [json_node ''1'' ''A'' ''start''] [json_edge ''e1'' ''1'' ''3'']"]
  by (simp add: accepts_def no_null_entries_def node_passes_def edge_passes_def example_defs)



section \<open>Properties of the shape synthesizer\<close>

text \<open>
  C4.  The mapping from node types to drawable primitives is defined on each of the six
  enumerated node types: \<open>decision\<close> gives the diamond, \<open>start\<close> and \<open>end\<close> the ellipse,
  \<open>data\<close> the trapezoid, \<open>process\<close> and \<open>default\<close> the rectangle.
\<close>

theorem getGeoTypeForNode_table:
  "getGeoTypeForNode (lit ''decision'') = diamond \<and>
   getGeoTypeForNode (lit ''start'') = ellipse \<and>
   getGeoTypeForNode (lit ''end'') = ellipse \<and>
   getGeoTypeForNode (lit ''data'') = trapezoid \<and>
   getGeoTypeForNode (lit ''process'') = rectangle \<and>
   getGeoTypeForNode (lit ''default'') = rectangle"
  by (simp add: getGeoTypeForNode_def lit_def)

lemma node_step_editor:
  "snd (fold node_step ns (m, ed)) =
     ed\<lparr>shapes := shapes ed @ map (\<lambda>(i, n). geo_shape i n) (enumerate (next_id ed) ns),
        next_id := next_id ed + length ns\<rparr>"
  by (induction ns arbitrary: m ed)
     (simp_all add: node_step_def createShapeId_def createShape_def)

lemma node_step_map:
  "dom (fst (fold node_step ns (m, ed))) = dom m \<union> set (map node_id ns)"
  by (induction ns arbitrary: m ed)
     (simp_all add: node_step_def createShapeId_def createShape_def)

lemma find_id_Some:
  "k \<in> set (map node_id ns) \<Longrightarrow> \<exists>n. find (\<lambda>n. node_id n = k) ns = Some n"
  by (cases "find (\<lambda>n. node_id n = k) ns") (auto simp: find_None_iff)

lemma edge_step_resolved:
  assumes "dom m = set (map node_id (nodes layout))" "resolves layout e"
  shows "edge_step layout m e ed =
     ed\<lparr>shapes := shapes ed @ [connector layout (next_id ed) e], next_id := Suc (next_id ed)\<rparr>"
proof -
  from assms obtain a b where "m (source e) = Some a" "m (target e) = Some b"
    unfolding resolves_def by (metis domD)
  moreover from assms(2) obtain s t where
    "find (\<lambda>n. node_id n = source e) (nodes layout) = Some s"
    "find (\<lambda>n. node_id n = target e) (nodes layout) = Some t"
    unfolding resolves_def using find_id_Some by blast
  ultimately show ?thesis
    by (simp add: edge_step_def connector_def node_named_def createShapeId_def createShape_def)
qed

lemma edge_step_dangling:
  assumes "dom m = set (map node_id (nodes layout))" "\<not> resolves layout e"
  shows "edge_step layout m e ed = ed"
proof -
  from assms have "m (source e) = None \<or> m (target e) = None"
    unfolding resolves_def by (metis domIff)
  then show ?thesis
    by (auto simp: edge_step_def split: option.splits)
qed

lemma edge_steps:
  assumes "dom m = set (map node_id (nodes layout))"
  shows "fold (edge_step layout m) es ed =
     ed\<lparr>shapes := shapes ed @
           map (\<lambda>(i, e). connector layout i e)
             (enumerate (next_id ed) (filter (resolves layout) es)),
        next_id := next_id ed + length (filter (resolves layout) es)\<rparr>"
proof (induction es arbitrary: ed)
  case Nil
  then show ?case by simp
next
  case (Cons e es)
  show ?case
  proof (cases "resolves layout e")
    case True
    then show ?thesis
      by (simp add: Cons.IH edge_step_resolved [OF assms True])
  next
    case False
    then show ?thesis
      by (simp add: Cons.IH edge_step_dangling [OF assms False])
  qed
qed

lemma generate_shapes:
  "shapes (generateTldrawShapes layout ed) =
     shapes ed @
     map (\<lambda>(i, n). geo_shape i n) (enumerate (next_id ed) (nodes layout)) @
     map (\<lambda>(i, e). connector layout i e)
       (enumerate (next_id ed + length (nodes layout)) (filter (resolves layout) (edges layout)))"
proof -
  obtain m ed1 where st: "fold node_step (nodes layout) (Map.empty, ed) = (m, ed1)"
    by (cases "fold node_step (nodes layout) (Map.empty, ed)")
  have m: "dom m = set (map node_id (nodes layout))"
    using node_step_map [of "nodes layout" Map.empty ed] by (simp add: st)
  have ed1: "ed1 = ed\<lparr>shapes := shapes ed @
        map (\<lambda>(i, n). geo_shape i n) (enumerate (next_id ed) (nodes layout)),
      next_id := next_id ed + length (nodes layout)\<rparr>"
    using node_step_editor [of "nodes layout" Map.empty ed] by (simp add: st)
  show ?thesis
    by (simp add: generateTldrawShapes_def st edge_steps [OF m] ed1)
qed

lemma geo_shape_types:
  "map (shape_type \<circ> (\<lambda>(i, n). geo_shape i n)) (enumerate k ns) = replicate (length ns) geo"
  by (induction ns arbitrary: k) (simp_all add: geo_shape_def)

lemma connector_types:
  "map (shape_type \<circ> (\<lambda>(i, e). connector layout i e)) (enumerate k es)
     = replicate (length es) arrow"
  by (induction es arbitrary: k) (simp_all add: connector_def arrow_shape_def)

lemma in_enumerate: "e \<in> set es \<Longrightarrow> \<exists>i. (i, e) \<in> set (enumerate k es)"
  by (induction es arbitrary: k) auto

lemma connector_created:
  assumes "e \<in> set (edges layout)" "resolves layout e"
  shows "\<exists>i. connector layout i e \<in> set (shapes (generateTldrawShapes layout ed))"
proof -
  from assms have "e \<in> set (filter (resolves layout) (edges layout))"
    by simp
  from in_enumerate [OF this] obtain i where
    "(i, e) \<in> set (enumerate (next_id ed + length (nodes layout))
        (filter (resolves layout) (edges layout)))"
    by blast
  then have "connector layout i e \<in> set (shapes (generateTldrawShapes layout ed))"
    unfolding generate_shapes by force
  then show ?thesis ..
qed

lemmas layout_example_defs =
  box_def link_def blank_def lit_def resolves_def connector_def node_named_def
  arrow_shape_def geo_shape_def getGeoTypeForNode_def or_default_def

text \<open>
  C5.  For every layout result, the shapes the synthesizer adds to the editor are one geo
  shape for each positioned node, in the order of the nodes, followed by one arrow for
  each edge whose source and target are both ids of positioned nodes, in the order of the
  edges; an edge with a source or target that does not resolve adds nothing, and no
  call fails.
\<close>

theorem generateTldrawShapes_shapes:
  "shapes (generateTldrawShapes layout editor) =
     shapes editor @
     map (\<lambda>(i, n). geo_shape i n) (enumerate (next_id editor) (nodes layout)) @
     map (\<lambda>(i, e). connector layout i e)
       (enumerate (next_id editor + length (nodes layout))
          (filter (resolves layout) (edges layout))) \<and>
   map shape_type (drop (length (shapes editor)) (shapes (generateTldrawShapes layout editor))) =
     replicate (length (nodes layout)) geo @
     replicate (length (filter (resolves layout) (edges layout))) arrow"
  by (simp add: generate_shapes geo_shape_types connector_types)

theorem generateTldrawShapes_shapes_witness:
  "\<not> resolves \<lparr>nodes = [box ''a'' ''A'' ''start'' 0 0, box ''b'' ''B'' ''end'' 0 180],
                edges = [link ''e1'' ''a'' ''b'', link ''e2'' ''a'' ''zz'']\<rparr>
       (link ''e2'' ''a'' ''zz'') \<and>
   shapes (generateTldrawShapes
      \<lparr>nodes = [box ''a'' ''A'' ''start'' 0 0, box ''b'' ''B'' ''end'' 0 180],
       edges = [link ''e1'' ''a'' ''b'', link ''e2'' ''a'' ''zz'']\<rparr> blank) =
     [\<lparr>shape_id = 0, shape_type = geo, shape_x = 0, shape_y = 0,
       props = GeoProps 180 80 ellipse (lit ''A'') solid green\<rparr>,
      \<lparr>shape_id = 1, shape_type = geo, shape_x = 0, shape_y = 180,
       props = GeoProps 180 80 ellipse (lit ''B'') solid red\<rparr>,
      \<lparr>shape_id = 2, shape_type = arrow, shape_x = 0, shape_y = 0,
       props = ArrowProps (90, 80) (90, 180) []\<rparr>]"
  using generateTldrawShapes_shapes
    [of "\<lparr>nodes = [box ''a'' ''A'' ''start'' 0 0, box ''b'' ''B'' ''end'' 0 180],
          edges = [link ''e1'' ''a'' ''b'', link ''e2'' ''a'' ''zz'']\<rparr>" blank]
  by (simp add: layout_example_defs)

text \<open>
  C3, as the specification states it, fails for a layout that is not top-to-bottom.  In
  the left-to-right layout of the edge from \<open>a\<close> to \<open>b\<close> (boxes of 180 by 80 at (0, 0)
  and (280, 0)), the downstream face of \<open>a\<close> is its right side, with midpoint (180, 40),
  and the upstream face of \<open>b\<close> is its left side, with midpoint (280, 40); the arrow goes
  from (90, 80) to (370, 0).
\<close>

theorem generateTldrawShapes_left_to_right_counterexample:
  "shapes (generateTldrawShapes
      \<lparr>nodes = [box ''a'' ''A'' ''start'' 0 0, box ''b'' ''B'' ''end'' 280 0],
       edges = [link ''e1'' ''a'' ''b'']\<rparr> blank) ! 2 =
     \<lparr>shape_id = 2, shape_type = arrow, shape_x = 0, shape_y = 0,
      props = ArrowProps (90, 80) (370, 0) []\<rparr> \<and>
   downstream_mid LR (box ''a'' ''A'' ''start'' 0 0) = (180, 40) \<and>
   upstream_mid LR (box ''b'' ''B'' ''end'' 280 0) = (280, 40) \<and>
   ArrowProps (90, 80) (370, 0) [] \<noteq>
     ArrowProps (downstream_mid LR (box ''a'' ''A'' ''start'' 0 0))
       (upstream_mid LR (box ''b'' ''B'' ''end'' 280 0)) []"
  by (simp add: generate_shapes layout_example_defs)

text \<open>
  C3, amended.  For every layout result, whatever the direction it was laid out in, and
  every edge of it whose source and target are ids of positioned nodes, the synthesizer
  creates an arrow from the bottom centre of the source node's box to the top centre of
  the target node's box, which are the midpoints of the downstream and of the upstream
  face in a top-to-bottom layout; the arrow carries the edge's label, or the empty text
  when the edge has none.
\<close>

theorem generateTldrawShapes_connector:
  assumes "e \<in> set (edges layout)" and "resolves layout e"
  shows "\<exists>i. \<lparr>shape_id = i, shape_type = arrow, shape_x = 0, shape_y = 0,
              props = ArrowProps
                (x (node_named layout (source e)) + width (node_named layout (source e)) / 2,
                 y (node_named layout (source e)) + height (node_named layout (source e)))
                (x (node_named layout (target e)) + width (node_named layout (target e)) / 2,
                 y (node_named layout (target e)))
                (case edge_label e of None \<Rightarrow> [] | Some l \<Rightarrow> l)\<rparr>
            \<in> set (shapes (generateTldrawShapes layout editor)) \<and>
         (x (node_named layout (source e)) + width (node_named layout (source e)) / 2,
          y (node_named layout (source e)) + height (node_named layout (source e)))
           = downstream_mid TB (node_named layout (source e)) \<and>
         (x (node_named layout (target e)) + width (node_named layout (target e)) / 2,
          y (node_named layout (target e)))
           = upstream_mid TB (node_named layout (target e))"
  using connector_created [OF assms, of editor]
  by (simp add: connector_def arrow_shape_def or_default_def)

theorem generateTldrawShapes_connector_witness:
  "(link ''e1'' ''a'' ''b'')\<lparr>edge_label := Some (lit ''yes'')\<rparr>
     \<in> set (edges \<lparr>nodes = [box ''a'' ''A'' ''decision'' 0 0, box ''b'' ''B'' ''end'' 0 180],
                    edges = [(link ''e1'' ''a'' ''b'')\<lparr>edge_label := Some (lit ''yes'')\<rparr>]\<rparr>) \<and>
   resolves \<lparr>nodes = [box ''a'' ''A'' ''decision'' 0 0, box ''b'' ''B'' ''end'' 0 180],
             edges = [(link ''e1'' ''a'' ''b'')\<lparr>edge_label := Some (lit ''yes'')\<rparr>]\<rparr>
     ((link ''e1'' ''a'' ''b'')\<lparr>edge_label := Some (lit ''yes'')\<rparr>) \<and>
   (\<exists>i. \<lparr>shape_id = i, shape_type = arrow, shape_x = 0, shape_y = 0,
          props = ArrowProps (90, 80) (90, 180) (lit ''yes'')\<rparr>
        \<in> set (shapes (generateTldrawShapes
            \<lparr>nodes = [box ''a'' ''A'' ''decision'' 0 0, box ''b'' ''B'' ''end'' 0 180],
             edges = [(link ''e1'' ''a'' ''b'')\<lparr>edge_label := Some (lit ''yes'')\<rparr>]\<rparr>
            blank)))"
  using generateTldrawShapes_connector
    [of "(link ''e1'' ''a'' ''b'')\<lparr>edge_label := Some (lit ''yes'')\<rparr>"
        "\<lparr>nodes = [box ''a'' ''A'' ''decision'' 0 0, box ''b'' ''B'' ''end'' 0 180],
          edges = [(link ''e1'' ''a'' ''b'')\<lparr>edge_label := Some (lit ''yes'')\<rparr>]\<rparr>"
        blank]
  by (simp add: box_def link_def lit_def resolves_def node_named_def)

section \<open>Properties of the extractor\<close>

lemma indexOf_drop_None: "indexOf s p = None \<Longrightarrow> indexOf (drop n s) p = None"
proof (induction s arbitrary: n)
  case Nil
  then show ?case by simp
next
  case (Cons c cs)
  then show ?case
    by (cases n) (auto split: if_splits)
qed

lemma replace_blocks_none:
  assumes "indexOf s startMarker = None \<or> indexOf s endMarker = None"
  shows "replace_blocks s = s"
proof (cases "indexOf s startMarker")
  case None
  then show ?thesis by (simp add: replace_blocks.simps)
next
  case (Some i)
  with assms have "indexOf (drop (i + length startMarker) s) endMarker = None"
    by (simp add: indexOf_drop_None)
  with Some show ?thesis by (simp add: replace_blocks.simps)
qed

lemma indexOf_prefix: "prefix p s \<Longrightarrow> indexOf s p = Some 0"
  by (cases s) simp_all

text \<open>If the first occurrence of \<open>p\<close> in \<open>u @ p\<close> is the one at the end, it is the first
  occurrence in every text that goes on after it.\<close>

lemma indexOf_append:
  "indexOf (u @ p) p = Some (length u) \<Longrightarrow> indexOf (u @ p @ r) p = Some (length u)"
proof (induction u)
  case Nil
  then show ?case by (simp add: indexOf_prefix)
next
  case (Cons c u)
  from Cons.prems have np: "\<not> prefix p (c # u @ p)"
    and rest: "indexOf (u @ p) p = Some (length u)"
    by (auto split: if_splits)
  have "\<not> prefix p (c # u @ p @ r)"
  proof
    assume "prefix p (c # u @ p @ r)"
    then have "prefix p ((c # u @ p) @ r)" by simp
    then have "prefix p (c # u @ p)"
      unfolding prefix_append by (auto simp: prefix_def)
    with np show False by simp
  qed
  with Cons.IH [OF rest] show ?case by simp
qed

lemma replace_blocks_block:
  assumes "indexOf (pre @ startMarker) startMarker = Some (length pre)"
    and "indexOf (body @ endMarker) endMarker = Some (length body)"
  shows "replace_blocks (pre @ startMarker @ body @ endMarker @ post) =
           pre @ placeholder @ replace_blocks post"
proof -
  let ?s = "pre @ startMarker @ body @ endMarker @ post"
  have s: "indexOf ?s startMarker = Some (length pre)"
    using assms(1) by (rule indexOf_append)
  have d: "drop (length pre + length startMarker) ?s = body @ endMarker @ post"
    by simp
  have e: "indexOf (body @ endMarker @ post) endMarker = Some (length body)"
    using assms(2) by (rule indexOf_append)
  have r: "drop (length pre + length startMarker + length body + length endMarker) ?s = post"
    by simp
  show ?thesis
    by (subst replace_blocks.simps) (simp only: s d e r option.case take_append, simp)
qed











text \<open>
  C9.  A text in which the start marker or the end marker does not occur is returned
  trimmed and otherwise unchanged.  In a text \<open>pre [DIAGRAM_START] body [DIAGRAM_END]
  post\<close>, where this start marker is the first one and this end marker the first after
  it, the block with its two markers is replaced by the placeholder \<open>[Diagram
  generated]\<close>, \<open>pre\<close> is kept, and the blocks of \<open>post\<close> are replaced in the same way,
  before the whole is trimmed.
\<close>

theorem stripDiagramMarkers_result:
  "(indexOf response startMarker = None \<or> indexOf response endMarker = None \<longrightarrow>
      stripDiagramMarkers response = trim response) \<and>
   (\<forall>pre body post.
      response = pre @ startMarker @ body @ endMarker @ post \<and>
      indexOf (pre @ startMarker) startMarker = Some (length pre) \<and>
      indexOf (body @ endMarker) endMarker = Some (length body) \<longrightarrow>
      stripDiagramMarkers response = trim (pre @ placeholder @ replace_blocks post))"
  by (auto simp: stripDiagramMarkers_def replace_blocks_none replace_blocks_block)

theorem stripDiagramMarkers_result_witness:
  "stripDiagramMarkers (lit ''  plain text, no diagram  '') = lit ''plain text, no diagram'' \<and>
   stripDiagramMarkers (lit ''A [DIAGRAM_START]{1}[DIAGRAM_END] B [DIAGRAM_START]{2}[DIAGRAM_END] '')
     = lit ''A [Diagram generated] B [Diagram generated]''"
proof -
  have a: "indexOf (lit ''  plain text, no diagram  '') startMarker = None"
    by (simp add: lit_def startMarker_def)
  have b: "trim (lit ''  plain text, no diagram  '') = lit ''plain text, no diagram''"
    by (simp add: trim_def is_space_def lit_def)
  have c: "lit ''A [DIAGRAM_START]{1}[DIAGRAM_END] B [DIAGRAM_START]{2}[DIAGRAM_END] ''
      = lit ''A '' @ startMarker @ lit ''{1}'' @ endMarker
          @ lit '' B [DIAGRAM_START]{2}[DIAGRAM_END] ''"
    by (simp add: lit_def startMarker_def endMarker_def)
  have d: "indexOf (lit ''A '' @ startMarker) startMarker = Some (length (lit ''A ''))"
    by (simp add: lit_def startMarker_def)
  have e: "indexOf (lit ''{1}'' @ endMarker) endMarker = Some (length (lit ''{1}''))"
    by (simp add: lit_def endMarker_def)
  have f: "trim (lit ''A '' @ placeholder @ replace_blocks (lit '' B [DIAGRAM_START]{2}[DIAGRAM_END] ''))
      = lit ''A [Diagram generated] B [Diagram generated]''"
    by (simp add: trim_def is_space_def lit_def startMarker_def endMarker_def placeholder_def
        replace_blocks.simps)
  from stripDiagramMarkers_result
    [of "lit ''A [DIAGRAM_START]{1}[DIAGRAM_END] B [DIAGRAM_START]{2}[DIAGRAM_END] ''"]
  have "stripDiagramMarkers
      (lit ''A [DIAGRAM_START]{1}[DIAGRAM_END] B [DIAGRAM_START]{2}[DIAGRAM_END] '')
      = trim (lit ''A '' @ placeholder @
          replace_blocks (lit '' B [DIAGRAM_START]{2}[DIAGRAM_END] ''))"
    using c d e by blast
  with stripDiagramMarkers_result [of "lit ''  plain text, no diagram  ''"] a b f
  show ?thesis by simp
qed

section \<open>Properties of the layout engine\<close>


lemma getAutoLayout_Throw:
  "dagre_layout w (build_graph graphModel options) = Throw err \<Longrightarrow>
   getAutoLayout dagre_layout w graphModel options = Throw err"
  by (simp add: getAutoLayout_def Let_def)







end
